theory Spec2Isabelle
  imports Complex_Main
begin

section \<open>JavaScript values, thrown errors and traced collaborator calls\<close>

text \<open>
  The node is written in TypeScript against three collaborators: the workflow engine
  (\<open>IExecuteFunctions\<close>: parameters, static data, helpers), the browser library
  (\<open>puppeteer\<close>) and the script sandbox (\<open>NodeVM\<close>). None of them is part of the
  repository. The embedding keeps the node's own control flow and data construction and
  takes every collaborator as a field of a context record. A call of a collaborator is
  recorded as an event, so that a run yields the value it returns or the error it throws,
  together with the calls it made, in order.
\<close>

type_synonym number = rat

datatype jsval =
    JUndefined
  | JNull
  | JBool bool
  | JNum number
  | JStr string
  | JArray "jsval list"
  | JObject "(string \<times> jsval) list"

text \<open>
  A thrown value. \<open>Thrown v\<close> is any value \<open>v\<close> thrown by a collaborator or by the
  user's script: an error object, but also a number, a string, \<open>null\<close> or
  \<open>undefined\<close>. \<open>NodeOperationError a d i\<close> is the engine's error object as the node
  constructs it: from the argument \<open>a\<close> (a message text or an error object), with an
  optional description and an optional item index. The message the engine gives to such
  an object is the engine's business and is not fixed here.
\<close>

datatype error =
    Thrown jsval
  | NodeOperationError jsval "string option" "nat option"

text \<open>\<open>new Error(m)\<close>, as far as the node looks at it, and that object thrown.\<close>

definition newError :: "string \<Rightarrow> jsval" where
  "newError m = JObject [(''message'', JStr m)]"

definition Error :: "string \<Rightarrow> error" where
  "Error m = Thrown (newError m)"

text \<open>
  \<open>new NodeOperationError(node, error as Error, { description })\<close> on a caught value.
  The engine's constructor hands back an error that already is a NodeOperationError.
\<close>

fun wrapError :: "error \<Rightarrow> string \<Rightarrow> error" where
  "wrapError (Thrown v) description = NodeOperationError v (Some description) None"
| "wrapError (NodeOperationError a d i) description = NodeOperationError a d i"

text \<open>The errors the node raises itself, under the names the specification gives them.\<close>

definition NoSessionToStop :: error where
  "NoSessionToStop = NodeOperationError
     (JStr ''Could not find a session to stop. Provide a fallback Session ID or ensure a Start node ran.'')
     None None"

definition IncompleteManualOverride :: error where
  "IncompleteManualOverride = NodeOperationError
     (JStr ''For Manual Session Override, both WebSocket Endpoint and Page ID are required.'')
     None None"

definition InvalidScriptReturn :: error where
  "InvalidScriptReturn =
     NodeOperationError (JStr ''Custom script must return an array of items.'') None None"

definition PageNotFound :: "string \<Rightarrow> error" where
  "PageNotFound pageId = NodeOperationError
     (JStr (''Could not find persistent page with ID '' @ [CHR 0x27] @ pageId @ [CHR 0x27] @ ''.''))
     None None"

definition InvalidURL :: "string \<Rightarrow> nat \<Rightarrow> error" where
  "InvalidURL urlString itemIndex =
     NodeOperationError (newError (''Invalid URL: '' @ urlString)) None (Some itemIndex)"

text \<open>
  A computation: what it returns (\<open>Inr\<close>) or throws (\<open>Inl\<close>), and the calls made.
\<close>

type_synonym ('e, 'a) io = "(error + 'a) \<times> 'e list"

definition io_return :: "'a \<Rightarrow> ('e, 'a) io" where
  "io_return x = (Inr x, [])"

definition io_throw :: "error \<Rightarrow> ('e, 'a) io" where
  "io_throw e = (Inl e, [])"

text \<open>\<open>await collaborator(...)\<close>: the call is recorded, its outcome is the answer.\<close>

definition io_call :: "'e \<Rightarrow> error + 'a \<Rightarrow> ('e, 'a) io" where
  "io_call ev answer = (answer, [ev])"

text \<open>A step of the node, or a helper of the engine, that makes no recorded call.\<close>

definition io_pure :: "error + 'a \<Rightarrow> ('e, 'a) io" where
  "io_pure answer = (answer, [])"

definition io_bind :: "('e, 'a) io \<Rightarrow> ('a \<Rightarrow> ('e, 'b) io) \<Rightarrow> ('e, 'b) io" where
  "io_bind m f =
     (case m of
        (Inl e, t) \<Rightarrow> (Inl e, t)
      | (Inr x, t) \<Rightarrow> (case f x of (r, t') \<Rightarrow> (r, t @ t')))"

text \<open>\<open>try { m } catch (error) { h error }\<close>\<close>

definition io_catch :: "('e, 'a) io \<Rightarrow> (error \<Rightarrow> ('e, 'a) io) \<Rightarrow> ('e, 'a) io" where
  "io_catch m h =
     (case m of
        (Inl e, t) \<Rightarrow> (case h e of (r, t') \<Rightarrow> (r, t @ t'))
      | (Inr x, t) \<Rightarrow> (Inr x, t))"

text \<open>
  \<open>try { m } finally { f }\<close>: the final block runs on both paths; when it throws, its
  error replaces the outcome of \<open>m\<close>, otherwise the outcome of \<open>m\<close> stands.
\<close>

definition io_finally :: "('e, 'a) io \<Rightarrow> ('e, unit) io \<Rightarrow> ('e, 'a) io" where
  "io_finally m f =
     (case m of (r, t) \<Rightarrow>
        (case f of
           (Inl e, t') \<Rightarrow> (Inl e, t @ t')
         | (Inr u, t') \<Rightarrow> (r, t @ t')))"

definition io_tag :: "('e \<Rightarrow> 'f) \<Rightarrow> ('e, 'a) io \<Rightarrow> ('f, 'a) io" where
  "io_tag g m = (case m of (r, t) \<Rightarrow> (r, map g t))"

section \<open>Configuration\<close>

text \<open>
  \<open>getNodeParameter\<close> belongs to the engine. The configuration of one item is the
  record of the values it yields, at the types the node casts them to. The entries of the
  \<open>options\<close> collection are present only when the user added them.
\<close>

record launchArguments =
  args :: "string list option"

record options =
  manualSessionOverride :: "bool option"
  manualWsEndpoint :: "string option"
  manualPageId :: "string option"
  batchSize :: "number option"
  executablePath :: "string option"
  launchArguments :: "launchArguments option"
  addContainerArgs :: "bool option"
  headless :: "bool option"
  fileName :: "string option"

record parameters =
  p_operation :: string
  p_sessionId :: string
  p_browserManagerUrl :: string
  p_stopSessionId :: string
  p_stopBrowserManagerUrl :: string
  p_url :: string
  p_scriptCode :: string
  p_dataPropertyName :: string
  p_pageRanges :: string
  p_scale :: number
  p_preferCSSPageSize :: bool
  p_format :: string
  p_height :: string
  p_width :: string
  p_landscape :: bool
  p_margin :: "(string \<times> string) list"
  p_displayHeaderFooter :: bool
  p_headerTemplate :: string
  p_footerTemplate :: string
  p_omitBackground :: bool
  p_printBackground :: bool
  p_imageType :: string
  p_quality :: number
  p_fullPage :: bool
  p_queryParameters :: "(string \<times> string) list option"
  p_options :: options

text \<open>JavaScript truthiness of an optional string: \<open>undefined\<close> and \<open>''\<close> are falsy.\<close>

fun truthy :: "string option \<Rightarrow> bool" where
  "truthy None = False"
| "truthy (Some s) = (s \<noteq> [])"

section \<open>Launch arguments\<close>

definition CONTAINER_LAUNCH_ARGS :: "string list" where
  "CONTAINER_LAUNCH_ARGS =
     [''--no-sandbox'', ''--disable-setuid-sandbox'', ''--disable-dev-shm-usage'', ''--disable-gpu'']"

text \<open>
  \<open>options.launchArguments?.args?.map(a => a.arg) ?? []\<close>, then, under
  \<open>addContainerArgs\<close>, the recommended arguments the list does not include, pushed.
\<close>

definition userLaunchArgs :: "options \<Rightarrow> string list" where
  "userLaunchArgs opts =
     (case launchArguments opts of
        None \<Rightarrow> []
      | Some la \<Rightarrow> (case args la of None \<Rightarrow> [] | Some as \<Rightarrow> as))"

definition buildLaunchArgs :: "options \<Rightarrow> string list" where
  "buildLaunchArgs opts =
     (let launchArgs = userLaunchArgs opts in
      if addContainerArgs opts = Some True then
        (let missingArgs = filter (\<lambda>arg. arg \<notin> set launchArgs) CONTAINER_LAUNCH_ARGS in
         if length missingArgs > 0 then launchArgs @ missingArgs else launchArgs)
      else launchArgs)"

section \<open>Sessions, browser and page calls\<close>

record PuppeteerSessionData =
  wsEndpoint :: string
  pageId :: string
  sessionId :: string
  browserManagerUrl :: string

text \<open>The response of the browser manager to \<open>/start\<close>, at the types it is cast to.\<close>

record http_response =
  resp_wsEndpoint :: string
  resp_pageId :: string
  resp_sessionId :: string

text \<open>\<open>options.headless === false ? false : 'new'\<close>\<close>

datatype headless_mode = HeadlessFalse | HeadlessNew

record launch_options =
  launch_headless :: headless_mode
  launch_args :: "string list"
  launch_executablePath :: "string option"

record ScreenshotOptions =
  shot_type :: string
  shot_fullPage :: bool
  shot_quality :: "number option"
  shot_path :: "string option"

record PDFOptions =
  pdf_pageRanges :: string
  pdf_displayHeaderFooter :: bool
  pdf_omitBackground :: bool
  pdf_printBackground :: bool
  pdf_landscape :: bool
  pdf_preferCSSPageSize :: bool
  pdf_scale :: number
  pdf_margin :: "(string \<times> string) list"
  pdf_headerTemplate :: "string option"
  pdf_footerTemplate :: "string option"
  pdf_height :: "string option"
  pdf_width :: "string option"
  pdf_format :: "string option"
  pdf_path :: "string option"

text \<open>A parsed \<open>URL\<close>: the host parses and serialises it, the node appends to its
  search parameters.\<close>

record url =
  href :: string
  searchParams :: "(string \<times> string) list"

text \<open>The calls made for one item, on the browser handle, the page and the sandbox.\<close>

datatype page_event =
    BrowserPages
  | NewPage
  | VmRun string
  | Goto string
  | Content
  | Screenshot ScreenshotOptions
  | Pdf PDFOptions
  | PageClose

text \<open>The calls of one invocation of the node.\<close>

datatype event =
    HttpPost string string
  | Connect string
  | Launch launch_options
  | Disconnect
  | BrowserClose
  | Item nat page_event

text \<open>
  The invocation context: the configuration per item index, the number of input items,
  the continue-on-failure policy, the message the engine's error class gives to an object
  constructed from a given argument, and the answer of every collaborator. A call that is
  made at most once per item is answered per item index, so any sequence of answers the
  node can observe is some context. Answers are \<open>Inl\<close> for a throw. \<open>browser_pages\<close> answers
  with the target identifiers of the open pages; a page is addressed by the item it
  serves.
\<close>

record ctx =
  getNodeParameter :: "nat \<Rightarrow> parameters"
  inputLength :: nat
  continueOnFail :: bool
  nodeErrorMessage :: "jsval \<Rightarrow> jsval"
  httpRequest :: "string \<Rightarrow> string \<Rightarrow> error + http_response"
  puppeteer_connect :: "string \<Rightarrow> error + unit"
  puppeteer_launch :: "launch_options \<Rightarrow> error + unit"
  browser_disconnect :: "error + unit"
  browser_close :: "error + unit"
  browser_pages :: "nat \<Rightarrow> error + string list"
  browser_newPage :: "nat \<Rightarrow> error + unit"
  vm_run :: "nat \<Rightarrow> string \<Rightarrow> error + jsval"
  normalizeItems :: "nat \<Rightarrow> jsval list \<Rightarrow> error + jsval list"
  prepareBinaryData :: "nat \<Rightarrow> string \<Rightarrow> string option \<Rightarrow> string \<Rightarrow> error + jsval"
  new_URL :: "string \<Rightarrow> url option"
  url_toString :: "url \<Rightarrow> string"
  page_goto :: "nat \<Rightarrow> string \<Rightarrow> error + unit"
  page_content :: "nat \<Rightarrow> error + string"
  page_screenshot :: "nat \<Rightarrow> ScreenshotOptions \<Rightarrow> error + string"
  page_pdf :: "nat \<Rightarrow> PDFOptions \<Rightarrow> error + string"
  page_isClosed :: "nat \<Rightarrow> bool"
  page_close :: "nat \<Rightarrow> error + unit"

section \<open>Stamping results with the page identifier\<close>

text \<open>
  \<open>item => ({ ...item, json: { ...item.json, pageId: session.pageId } })\<close> on any
  value a script may return. Spreading copies own enumerable properties: those of an
  object, the indices of an array or string, nothing of any other value. Reading
  \<open>.json\<close> of \<open>undefined\<close> or \<open>null\<close> throws. A property written in an object
  literal replaces an earlier one of that name in place, or is added last.
\<close>

function string_of_nat :: "nat \<Rightarrow> string" where
  "string_of_nat n =
     (if n < 10 then [''0123456789'' ! n]
      else string_of_nat (n div 10) @ [''0123456789'' ! (n mod 10)])"
  by pat_completeness auto
termination
  by (relation "measure id") auto

declare string_of_nat.simps [simp del]

fun js_spread :: "jsval \<Rightarrow> (string \<times> jsval) list" where
  "js_spread (JObject kvs) = kvs"
| "js_spread (JArray xs) = zip (map string_of_nat [0..<length xs]) xs"
| "js_spread (JStr s) = zip (map string_of_nat [0..<length s]) (map (\<lambda>ch. JStr [ch]) s)"
| "js_spread v = []"

fun set_prop :: "string \<Rightarrow> jsval \<Rightarrow> (string \<times> jsval) list \<Rightarrow> (string \<times> jsval) list" where
  "set_prop k v [] = [(k, v)]"
| "set_prop k v ((k', v') # kvs) =
     (if k' = k then (k, v) # kvs else (k', v') # set_prop k v kvs)"

text \<open>
  Reading the property \<open>json\<close> or \<open>message\<close> of a value: of \<open>undefined\<close> and
  \<open>null\<close> it throws a TypeError, an object answers with the property or with
  \<open>undefined\<close>, and no other value has either property.
\<close>

definition TypeError :: "string \<Rightarrow> string \<Rightarrow> error" where
  "TypeError what property = Error (''Cannot read properties of '' @ what @
     '' (reading '' @ [CHR 0x27] @ property @ [CHR 0x27] @ '')'')"

fun js_read :: "string \<Rightarrow> jsval \<Rightarrow> error + jsval" where
  "js_read property JUndefined = Inl (TypeError ''undefined'' property)"
| "js_read property JNull = Inl (TypeError ''null'' property)"
| "js_read property (JObject kvs) =
     Inr (case map_of kvs property of None \<Rightarrow> JUndefined | Some v \<Rightarrow> v)"
| "js_read property v = Inr JUndefined"

definition stamp :: "string \<Rightarrow> jsval \<Rightarrow> error + jsval" where
  "stamp pid item =
     (case js_read ''json'' item of
        Inl e \<Rightarrow> Inl e
      | Inr j \<Rightarrow>
          Inr (JObject (set_prop ''json''
                 (JObject (set_prop ''pageId'' (JStr pid) (js_spread j)))
                 (js_spread item))))"

text \<open>\<open>Array.prototype.map\<close> with a callback that may throw.\<close>

fun stampAll :: "string \<Rightarrow> jsval list \<Rightarrow> error + jsval list" where
  "stampAll pid [] = Inr []"
| "stampAll pid (x # xs) =
     (case stamp pid x of
        Inl e \<Rightarrow> Inl e
      | Inr y \<Rightarrow> (case stampAll pid xs of Inl e \<Rightarrow> Inl e | Inr ys \<Rightarrow> Inr (y # ys)))"

text \<open>\<open>if (session) { ... = ....map(...) }\<close>\<close>

definition stampIfSession ::
  "PuppeteerSessionData option \<Rightarrow> jsval list \<Rightarrow> error + jsval list" where
  "stampIfSession session xs =
     (case session of
        Some s \<Rightarrow> stampAll (pageId s) xs
      | None \<Rightarrow> Inr xs)"

section \<open>runAction\<close>

text \<open>Lines 49-59: the page of the session, looked up by target identifier, or a new one.\<close>

definition resolvePage ::
  "ctx \<Rightarrow> nat \<Rightarrow> PuppeteerSessionData option \<Rightarrow> (page_event, unit) io" where
  "resolvePage c itemIndex session =
     (case session of
        Some s \<Rightarrow>
          io_bind (io_call BrowserPages (browser_pages c itemIndex)) (\<lambda>pages.
            (case find (\<lambda>p. p = pageId s) pages of
               None \<Rightarrow> io_throw (PageNotFound (pageId s))
             | Some foundPage \<Rightarrow> io_return ()))
      | None \<Rightarrow> io_call NewPage (browser_newPage c itemIndex))"

fun isArray :: "jsval \<Rightarrow> bool" where
  "isArray (JArray xs) = True"
| "isArray v = False"

fun elements :: "jsval \<Rightarrow> jsval list" where
  "elements (JArray xs) = xs"
| "elements v = []"

definition wrapScript :: "string \<Rightarrow> string" where
  "wrapScript scriptCode =
     ''module.exports = async function() { '' @ scriptCode @ [CHR 0x0A] @ ''}()''"

text \<open>
  Lines 62-84. Building the sandbox and running the wrapped script is one call of the
  sandbox: it answers with the value of the script or with what was thrown.
\<close>

definition runCustomScript ::
  "ctx \<Rightarrow> nat \<Rightarrow> PuppeteerSessionData option \<Rightarrow> (page_event, jsval list) io" where
  "runCustomScript c itemIndex session =
     (let scriptCode = p_scriptCode (getNodeParameter c itemIndex) in
      io_bind (io_call (VmRun (wrapScript scriptCode)) (vm_run c itemIndex (wrapScript scriptCode)))
        (\<lambda>scriptResult.
           if \<not> isArray scriptResult then io_throw InvalidScriptReturn
           else
             io_bind (io_pure (stampIfSession session (elements scriptResult))) (\<lambda>stamped.
               io_pure (normalizeItems c itemIndex stamped))))"

text \<open>Lines 86-97: the URL with the configured query parameters appended.\<close>

definition buildUrl :: "ctx \<Rightarrow> nat \<Rightarrow> (page_event, url) io" where
  "buildUrl c itemIndex =
     (let urlString = p_url (getNodeParameter c itemIndex) in
      (case new_URL c urlString of
         None \<Rightarrow> io_throw (InvalidURL urlString itemIndex)
       | Some u \<Rightarrow>
           (let queryParameters =
                  (case p_queryParameters (getNodeParameter c itemIndex) of
                     None \<Rightarrow> []
                   | Some ps \<Rightarrow> ps)
            in io_return (u\<lparr>searchParams := searchParams u @ queryParameters\<rparr>))))"

definition pairedItem :: "nat \<Rightarrow> string \<times> jsval" where
  "pairedItem itemIndex = (''pairedItem'', JObject [(''item'', JNum (of_nat itemIndex))])"

text \<open>Lines 102-104.\<close>

definition getPageContent :: "ctx \<Rightarrow> nat \<Rightarrow> (page_event, jsval list) io" where
  "getPageContent c itemIndex =
     io_bind (io_call Content (page_content c itemIndex)) (\<lambda>body.
       io_return [JObject [(''json'', JObject [(''body'', JStr body)]), pairedItem itemIndex]])"

text \<open>Lines 106-120.\<close>

definition buildScreenshotOptions :: "parameters \<Rightarrow> ScreenshotOptions" where
  "buildScreenshotOptions p =
     \<lparr> shot_type = p_imageType p,
       shot_fullPage = p_fullPage p,
       shot_quality = (if p_imageType p \<noteq> ''png'' then Some (p_quality p) else None),
       shot_path = (if truthy (fileName (p_options p)) then fileName (p_options p) else None) \<rparr>"

definition binaryItem :: "string \<Rightarrow> jsval \<Rightarrow> string \<Rightarrow> nat \<Rightarrow> jsval" where
  "binaryItem dataPropertyName binaryData urlText itemIndex =
     JObject [(''binary'', JObject [(dataPropertyName, binaryData)]),
              (''json'', JObject [(''url'', JStr urlText)]),
              pairedItem itemIndex]"

definition getScreenshot :: "ctx \<Rightarrow> nat \<Rightarrow> url \<Rightarrow> (page_event, jsval list) io" where
  "getScreenshot c itemIndex u =
     (let p = getNodeParameter c itemIndex;
          screenshotOptions = buildScreenshotOptions p
      in io_bind (io_call (Screenshot screenshotOptions) (page_screenshot c itemIndex screenshotOptions))
           (\<lambda>screenshot.
              io_bind (io_pure (prepareBinaryData c itemIndex screenshot
                                  (shot_path screenshotOptions) (''image/'' @ p_imageType p)))
                (\<lambda>binaryData.
                   io_return [binaryItem (p_dataPropertyName p) binaryData (url_toString c u) itemIndex])))"

text \<open>Lines 122-148. Nothing is checked between building the options and the render call.\<close>

definition buildPdfOptions :: "parameters \<Rightarrow> PDFOptions" where
  "buildPdfOptions p =
     \<lparr> pdf_pageRanges = p_pageRanges p,
       pdf_displayHeaderFooter = p_displayHeaderFooter p,
       pdf_omitBackground = p_omitBackground p,
       pdf_printBackground = p_printBackground p,
       pdf_landscape = p_landscape p,
       pdf_preferCSSPageSize = p_preferCSSPageSize p,
       pdf_scale = p_scale p,
       pdf_margin = p_margin p,
       pdf_headerTemplate = (if p_displayHeaderFooter p then Some (p_headerTemplate p) else None),
       pdf_footerTemplate = (if p_displayHeaderFooter p then Some (p_footerTemplate p) else None),
       pdf_height = (if \<not> p_preferCSSPageSize p then Some (p_height p) else None),
       pdf_width = (if \<not> p_preferCSSPageSize p then Some (p_width p) else None),
       pdf_format =
         (if \<not> p_preferCSSPageSize p then
            (if p_height p = [] \<or> p_width p = [] then Some (p_format p) else None)
          else None),
       pdf_path = (if truthy (fileName (p_options p)) then fileName (p_options p) else None) \<rparr>"

definition getPDF :: "ctx \<Rightarrow> nat \<Rightarrow> url \<Rightarrow> (page_event, jsval list) io" where
  "getPDF c itemIndex u =
     (let p = getNodeParameter c itemIndex;
          pdfOptions = buildPdfOptions p
      in io_bind (io_call (Pdf pdfOptions) (page_pdf c itemIndex pdfOptions))
           (\<lambda>pdf.
              io_bind (io_pure (prepareBinaryData c itemIndex pdf (pdf_path pdfOptions)
                                  ''application/pdf''))
                (\<lambda>binaryData.
                   io_return [binaryItem (p_dataPropertyName p) binaryData (url_toString c u) itemIndex])))"

text \<open>Lines 86-158: navigate, perform the selected action, stamp in a session.\<close>

definition runUrlAction ::
  "ctx \<Rightarrow> nat \<Rightarrow> PuppeteerSessionData option \<Rightarrow> string \<Rightarrow> (page_event, jsval list) io" where
  "runUrlAction c itemIndex session operation =
     io_bind (buildUrl c itemIndex) (\<lambda>u.
       io_bind (io_call (Goto (url_toString c u)) (page_goto c itemIndex (url_toString c u)))
         (\<lambda>navigated.
            io_bind
              (if operation = ''getPageContent'' then getPageContent c itemIndex
               else if operation = ''getScreenshot'' then getScreenshot c itemIndex u
               else if operation = ''getPDF'' then getPDF c itemIndex u
               else io_return [])
              (\<lambda>resultData. io_pure (stampIfSession session resultData))))"

text \<open>Lines 159-163: the final block. The page object always exists here.\<close>

definition closeOwnPage ::
  "ctx \<Rightarrow> nat \<Rightarrow> PuppeteerSessionData option \<Rightarrow> (page_event, unit) io" where
  "closeOwnPage c itemIndex session =
     (if session = None \<and> \<not> page_isClosed c itemIndex
      then io_call PageClose (page_close c itemIndex)
      else io_return ())"

definition runAction ::
  "ctx \<Rightarrow> nat \<Rightarrow> PuppeteerSessionData option \<Rightarrow> (page_event, jsval list) io" where
  "runAction c itemIndex session =
     (let operation = p_operation (getNodeParameter c itemIndex) in
      io_bind (resolvePage c itemIndex session) (\<lambda>page.
        io_finally
          (if operation = ''runCustomScript'' then runCustomScript c itemIndex session
           else runUrlAction c itemIndex session operation)
          (closeOwnPage c itemIndex session)))"

section \<open>execute\<close>

text \<open>\<open>helpers.returnJsonArray\<close>: each record becomes the \<open>json\<close> of an item.\<close>

definition returnJsonArray :: "jsval list \<Rightarrow> jsval list" where
  "returnJsonArray xs = map (\<lambda>x. JObject [(''json'', x)]) xs"

definition sessionJson :: "PuppeteerSessionData \<Rightarrow> jsval" where
  "sessionJson s =
     JObject [(''wsEndpoint'', JStr (wsEndpoint s)), (''pageId'', JStr (pageId s)),
              (''sessionId'', JStr (sessionId s)), (''browserManagerUrl'', JStr (browserManagerUrl s))]"

text \<open>
  An invocation starts from the workflow-scoped slot (\<open>getWorkflowStaticData('global')
  .puppeteerSession\<close>) and ends with its outcome, its calls and the slot as it leaves it.
\<close>

type_synonym outcome = "(event, jsval list list) io \<times> PuppeteerSessionData option"

text \<open>Lines 183-205.\<close>

definition startPersistentBrowser :: "ctx \<Rightarrow> PuppeteerSessionData option \<Rightarrow> outcome" where
  "startPersistentBrowser c slot =
     (let sid = p_sessionId (getNodeParameter c 0);
          managerUrl = p_browserManagerUrl (getNodeParameter c 0);
          post = HttpPost (managerUrl @ ''/start'') sid
      in (case httpRequest c (managerUrl @ ''/start'') sid of
            Inr response \<Rightarrow>
              (let sessionData =
                     \<lparr> wsEndpoint = resp_wsEndpoint response,
                       pageId = resp_pageId response,
                       sessionId = resp_sessionId response,
                       browserManagerUrl = managerUrl \<rparr>
               in ((Inr [returnJsonArray [sessionJson sessionData]], [post]), Some sessionData))
          | Inl error \<Rightarrow>
              ((Inl (wrapError error ''Failed to start browser session from manager.''), [post]),
               slot)))"

text \<open>
  Lines 207-231. The identifier and the manager address come from the slot when it holds
  a session and from the fallback parameters otherwise; an empty string is falsy.
\<close>

definition stopPersistentBrowser :: "ctx \<Rightarrow> PuppeteerSessionData option \<Rightarrow> outcome" where
  "stopPersistentBrowser c slot =
     (let session = slot;
          sid =
            (case session of
               Some s \<Rightarrow> sessionId s
             | None \<Rightarrow> p_stopSessionId (getNodeParameter c 0));
          managerUrl =
            (case session of
               Some s \<Rightarrow> browserManagerUrl s
             | None \<Rightarrow> p_stopBrowserManagerUrl (getNodeParameter c 0))
      in if sid = [] \<or> managerUrl = []
         then (io_throw NoSessionToStop, slot)
         else
           (let post = HttpPost (managerUrl @ ''/stop'') sid
            in (case httpRequest c (managerUrl @ ''/stop'') sid of
                  Inr response \<Rightarrow>
                    ((Inr [returnJsonArray [JObject [(''message'', JStr ''Session stopped.'')]]],
                      [post]),
                     (if session \<noteq> None then None else slot))
                | Inl error \<Rightarrow>
                    ((Inl (wrapError error ''Failed to stop browser session.''), [post]), slot))))"

text \<open>
  Lines 235-246: the session of the batch and whether it is the manual override. The
  override is looked at only when the slot is empty. Past the check both strings are
  present and not empty; the inner cases only take them out of the options.
\<close>

definition resolveSession ::
  "options \<Rightarrow> PuppeteerSessionData option \<Rightarrow> error + PuppeteerSessionData option \<times> bool" where
  "resolveSession opts slot =
     (if slot = None \<and> manualSessionOverride opts = Some True then
        (if \<not> truthy (manualWsEndpoint opts) \<or> \<not> truthy (manualPageId opts)
         then Inl IncompleteManualOverride
         else
           (case manualWsEndpoint opts of
              Some ws \<Rightarrow>
                (case manualPageId opts of
                   Some pid \<Rightarrow>
                     Inr (Some \<lparr> wsEndpoint = ws, pageId = pid,
                                  sessionId = ''manual-override'', browserManagerUrl = [] \<rparr>,
                          True)
                 | None \<Rightarrow> Inl IncompleteManualOverride)
            | None \<Rightarrow> Inl IncompleteManualOverride))
      else Inr (slot, False))"

text \<open>Lines 248-267: connect to the session's endpoint, or launch.\<close>

definition buildLaunchOptions :: "options \<Rightarrow> launch_options" where
  "buildLaunchOptions opts =
     \<lparr> launch_headless = (if headless opts = Some False then HeadlessFalse else HeadlessNew),
       launch_args = buildLaunchArgs opts,
       launch_executablePath = executablePath opts \<rparr>"

definition acquireBrowser ::
  "ctx \<Rightarrow> options \<Rightarrow> PuppeteerSessionData option \<Rightarrow> (event, unit) io" where
  "acquireBrowser c opts session =
     (case session of
        Some s \<Rightarrow>
          io_catch (io_call (Connect (wsEndpoint s)) (puppeteer_connect c (wsEndpoint s)))
            (\<lambda>error. io_throw (wrapError error ''Failed to connect to persistent browser.''))
      | None \<Rightarrow>
          io_catch (io_call (Launch (buildLaunchOptions opts))
                      (puppeteer_launch c (buildLaunchOptions opts)))
            (\<lambda>error. io_throw (wrapError error ''Failed to launch temporary browser.'')))"

text \<open>
  Line 279: \<open>(error as Error).message\<close>, read from whatever was caught. The cast
  checks nothing.
\<close>

fun readMessage :: "ctx \<Rightarrow> error \<Rightarrow> error + jsval" where
  "readMessage c (Thrown v) = js_read ''message'' v"
| "readMessage c (NodeOperationError a d i) = Inr (nodeErrorMessage c a)"

text \<open>
  Lines 278-281: the record pushed for a failed item under continue-on-failure. Building
  it throws when reading the message does.
\<close>

definition errorItem :: "ctx \<Rightarrow> error \<Rightarrow> nat \<Rightarrow> error + jsval" where
  "errorItem c error i =
     (case readMessage c error of
        Inl thrown \<Rightarrow> Inl thrown
      | Inr m \<Rightarrow> Inr (JObject [(''json'', JObject [(''error'', m)]), pairedItem i]))"

text \<open>Lines 272-287: the loop over the input items, from index \<open>i\<close>.\<close>

function forItems ::
  "ctx \<Rightarrow> PuppeteerSessionData option \<Rightarrow> nat \<Rightarrow> jsval list \<Rightarrow> (event, jsval list) io" where
  "forItems c session i returnData =
     (if i < inputLength c then
        io_bind
          (io_catch
             (io_bind (io_tag (Item i) (runAction c i session))
                (\<lambda>results. io_return (returnData @ results)))
             (\<lambda>error.
                if continueOnFail c then
                  io_bind (io_pure (errorItem c error i))
                    (\<lambda>item. io_return (returnData @ [item]))
                else io_throw error))
          (\<lambda>returnData'. forItems c session (Suc i) returnData')
      else io_return returnData)"
  by pat_completeness auto
termination
  by (relation "measure (\<lambda>(c, session, i, returnData). inputLength c - i)") auto

declare forItems.simps [simp del]

text \<open>Lines 288-298: the final block. The browser object always exists here.\<close>

definition teardown :: "ctx \<Rightarrow> PuppeteerSessionData option \<Rightarrow> bool \<Rightarrow> (event, unit) io" where
  "teardown c session isManualSession =
     (if session \<noteq> None \<and> \<not> isManualSession then io_call Disconnect (browser_disconnect c)
      else if session \<noteq> None \<and> isManualSession then io_call Disconnect (browser_disconnect c)
      else io_call BrowserClose (browser_close c))"

text \<open>Lines 269-300.\<close>

definition runBatch ::
  "ctx \<Rightarrow> PuppeteerSessionData option \<Rightarrow> bool \<Rightarrow> (event, jsval list list) io" where
  "runBatch c session isManualSession =
     io_bind (io_finally (forItems c session 0 []) (teardown c session isManualSession))
       (\<lambda>returnData. io_return [returnData])"

definition execute :: "ctx \<Rightarrow> PuppeteerSessionData option \<Rightarrow> outcome" where
  "execute c slot =
     (let operation = p_operation (getNodeParameter c 0) in
      if operation = ''startPersistentBrowser'' then startPersistentBrowser c slot
      else if operation = ''stopPersistentBrowser'' then stopPersistentBrowser c slot
      else
        (let opts = p_options (getNodeParameter c 0) in
         (case resolveSession opts slot of
            Inl error \<Rightarrow> (io_throw error, slot)
          | Inr (session, isManualSession) \<Rightarrow>
              (io_bind (acquireBrowser c opts session)
                 (\<lambda>browser. runBatch c session isManualSession),
               slot))))"

definition outcome_result :: "outcome \<Rightarrow> error + jsval list list" where
  "outcome_result out = fst (fst out)"

definition outcome_calls :: "outcome \<Rightarrow> event list" where
  "outcome_calls out = snd (fst out)"

definition outcome_slot :: "outcome \<Rightarrow> PuppeteerSessionData option" where
  "outcome_slot out = snd out"

section \<open>Observations on a run\<close>

text \<open>The calls that release the browser handle, that create it, and the item calls.\<close>

fun is_teardown :: "event \<Rightarrow> bool" where
  "is_teardown Disconnect = True"
| "is_teardown BrowserClose = True"
| "is_teardown ev = False"

fun is_launch :: "event \<Rightarrow> bool" where
  "is_launch (Launch cfg) = True"
| "is_launch ev = False"

fun is_connect :: "event \<Rightarrow> bool" where
  "is_connect (Connect ws) = True"
| "is_connect ev = False"

fun is_item :: "event \<Rightarrow> bool" where
  "is_item (Item i ev) = True"
| "is_item ev = False"

text \<open>The calls between creating a page and closing it.\<close>

fun is_page_work :: "page_event \<Rightarrow> bool" where
  "is_page_work NewPage = False"
| "is_page_work PageClose = False"
| "is_page_work BrowserPages = False"
| "is_page_work ev = True"

fun is_pdf :: "page_event \<Rightarrow> bool" where
  "is_pdf (Pdf opts) = True"
| "is_pdf ev = False"


text \<open>The calls made for item \<open>i\<close>.\<close>

definition itemCalls :: "ctx \<Rightarrow> PuppeteerSessionData option \<Rightarrow> nat \<Rightarrow> event list" where
  "itemCalls c session i = map (Item i) (snd (runAction c i session))"

section \<open>A sample configuration and sample collaborators\<close>

text \<open>
  The defaults of the node description (with a one-line script), over collaborators that
  answer every call without throwing. The manager answers \<open>/start\<close> with the session
  \<open>ws://x\<close>, page \<open>p1\<close>.
\<close>

definition baseOptions :: options where
  "baseOptions =
     \<lparr> manualSessionOverride = None, manualWsEndpoint = None, manualPageId = None,
       batchSize = None, executablePath = None, launchArguments = None,
       addContainerArgs = None, headless = None, fileName = None \<rparr>"

definition baseParameters :: parameters where
  "baseParameters =
     \<lparr> p_operation = ''runCustomScript'',
       p_sessionId = ''abc'',
       p_browserManagerUrl = ''http://127.0.0.1:3001'',
       p_stopSessionId = [],
       p_stopBrowserManagerUrl = ''http://127.0.0.1:3001'',
       p_url = [],
       p_scriptCode = ''return [];'',
       p_dataPropertyName = ''data'',
       p_pageRanges = [],
       p_scale = 1,
       p_preferCSSPageSize = True,
       p_format = ''Letter'',
       p_height = [],
       p_width = [],
       p_landscape = True,
       p_margin = [],
       p_displayHeaderFooter = False,
       p_headerTemplate = [],
       p_footerTemplate = [],
       p_omitBackground = False,
       p_printBackground = False,
       p_imageType = ''png'',
       p_quality = 100,
       p_fullPage = True,
       p_queryParameters = None,
       p_options = baseOptions \<rparr>"

text \<open>An engine that keeps the message of the argument as it is.\<close>

fun plainMessage :: "jsval \<Rightarrow> jsval" where
  "plainMessage (JStr m) = JStr m"
| "plainMessage (JObject kvs) = (case map_of kvs ''message'' of None \<Rightarrow> JUndefined | Some m \<Rightarrow> m)"
| "plainMessage v = JUndefined"

definition baseCtx :: ctx where
  "baseCtx =
     \<lparr> getNodeParameter = (\<lambda>i. baseParameters),
       inputLength = 1,
       continueOnFail = False,
       nodeErrorMessage = plainMessage,
       httpRequest = (\<lambda>target sid.
         Inr \<lparr> resp_wsEndpoint = ''ws://x'', resp_pageId = ''p1'', resp_sessionId = sid \<rparr>),
       puppeteer_connect = (\<lambda>ws. Inr ()),
       puppeteer_launch = (\<lambda>cfg. Inr ()),
       browser_disconnect = Inr (),
       browser_close = Inr (),
       browser_pages = (\<lambda>i. Inr [''p0'', ''p1'']),
       browser_newPage = (\<lambda>i. Inr ()),
       vm_run = (\<lambda>i code. Inr (JArray [])),
       normalizeItems = (\<lambda>i xs. Inr xs),
       prepareBinaryData = (\<lambda>i bytes path mime. Inr (JObject [(''mimeType'', JStr mime)])),
       new_URL = (\<lambda>text. if text = [] then None else Some \<lparr> href = text, searchParams = [] \<rparr>),
       url_toString = href,
       page_goto = (\<lambda>i target. Inr ()),
       page_content = (\<lambda>i. Inr ''<html></html>''),
       page_screenshot = (\<lambda>i opts. Inr ''image-bytes''),
       page_pdf = (\<lambda>i opts. Inr ''pdf-bytes''),
       page_isClosed = (\<lambda>i. False),
       page_close = (\<lambda>i. Inr ()) \<rparr>"

definition session1 :: PuppeteerSessionData where
  "session1 =
     \<lparr> wsEndpoint = ''ws://x'', pageId = ''p1'', sessionId = ''abc'',
       browserManagerUrl = ''http://127.0.0.1:3001'' \<rparr>"

text \<open>A script that throws.\<close>

definition scriptFailsCtx :: ctx where
  "scriptFailsCtx = baseCtx\<lparr> vm_run := (\<lambda>i code. Inl (Error ''script failed'')) \<rparr>"

text \<open>Three items fetching page content; navigation fails for the item of index 1.\<close>

definition contentParameters :: parameters where
  "contentParameters =
     baseParameters\<lparr> p_operation := ''getPageContent'', p_url := ''https://example.test/'' \<rparr>"

definition batchCtx :: ctx where
  "batchCtx =
     baseCtx\<lparr> getNodeParameter := (\<lambda>i. contentParameters),
              inputLength := 3,
              continueOnFail := True,
              page_goto := (\<lambda>i target. if i = 1 then Inl (Error ''navigation failed'') else Inr ()) \<rparr>"

definition stopCtx :: ctx where
  "stopCtx = batchCtx\<lparr> continueOnFail := False \<rparr>"

definition contentItem :: "nat \<Rightarrow> jsval" where
  "contentItem i =
     JObject [(''json'', JObject [(''body'', JStr ''<html></html>'')]),
              (''pairedItem'', JObject [(''item'', JNum (of_nat i))])]"


text \<open>The batch that stops at its second item, over a browser whose close throws.\<close>

definition maskCtx :: ctx where
  "maskCtx = stopCtx\<lparr> browser_close := Inl (Error ''close failed'') \<rparr>"

text \<open>The manual override, complete and with the page identifier left out.\<close>

definition overrideOptions :: options where
  "overrideOptions =
     baseOptions\<lparr> manualSessionOverride := Some True,
                  manualWsEndpoint := Some ''ws://manual'',
                  manualPageId := Some ''p1'' \<rparr>"

definition overrideCtx :: ctx where
  "overrideCtx = baseCtx\<lparr> getNodeParameter := (\<lambda>i. baseParameters\<lparr> p_options := overrideOptions \<rparr>) \<rparr>"


text \<open>The stop operation with the default fallback parameters, and over a manager that
  refuses the request.\<close>

definition stopOpCtx :: ctx where
  "stopOpCtx =
     baseCtx\<lparr> getNodeParameter := (\<lambda>i. baseParameters\<lparr> p_operation := ''stopPersistentBrowser'' \<rparr>) \<rparr>"

definition stopFailsCtx :: ctx where
  "stopFailsCtx = stopOpCtx\<lparr> httpRequest := (\<lambda>target sid. Inl (Error ''manager down'')) \<rparr>"

text \<open>A script that returns an object instead of an array, also over a page whose close
  throws.\<close>

definition objectScriptCtx :: ctx where
  "objectScriptCtx =
     baseCtx\<lparr> vm_run := (\<lambda>i code. Inr (JObject [(''title'', JStr ''Swag Labs'')])) \<rparr>"

definition closeFailsCtx :: ctx where
  "closeFailsCtx = objectScriptCtx\<lparr> page_close := (\<lambda>i. Inl (Error ''close failed'')) \<rparr>"

text \<open>A PDF request that prefers no CSS page size and gives no width, height or format.\<close>

definition pdfParameters :: parameters where
  "pdfParameters =
     baseParameters\<lparr> p_operation := ''getPDF'', p_url := ''https://example.test/'',
                     p_preferCSSPageSize := False, p_format := [] \<rparr>"

definition pdfCtx :: ctx where
  "pdfCtx = baseCtx\<lparr> getNodeParameter := (\<lambda>i. pdfParameters) \<rparr>"

definition emptyFormatOptions :: PDFOptions where
  "emptyFormatOptions =
     \<lparr> pdf_pageRanges = [], pdf_displayHeaderFooter = False, pdf_omitBackground = False,
       pdf_printBackground = False, pdf_landscape = True, pdf_preferCSSPageSize = False,
       pdf_scale = 1, pdf_margin = [], pdf_headerTemplate = None, pdf_footerTemplate = None,
       pdf_height = Some [], pdf_width = Some [], pdf_format = Some [], pdf_path = None \<rparr>"

text \<open>Container arguments requested over user arguments that hold one of them.\<close>

definition gpuOptions :: options where
  "gpuOptions =
     baseOptions\<lparr> addContainerArgs := Some True,
                  launchArguments := Some \<lparr> args = Some [''--disable-gpu'', ''--lang=en''] \<rparr> \<rparr>"

section \<open>Facts about computations\<close>

lemma io_return_simps: "fst (io_return x) = Inr x" "snd (io_return x) = []"
  by (simp_all add: io_return_def)

lemma io_throw_simps: "fst (io_throw e) = Inl e" "snd (io_throw e) = []"
  by (simp_all add: io_throw_def)

lemma io_pure_simps: "fst (io_pure r) = r" "snd (io_pure r) = []"
  by (simp_all add: io_pure_def)

lemma io_call_simps: "fst (io_call ev r) = r" "snd (io_call ev r) = [ev]"
  by (simp_all add: io_call_def)

lemma fst_io_bind: "fst (io_bind m f) = (case fst m of Inl e \<Rightarrow> Inl e | Inr x \<Rightarrow> fst (f x))"
  by (cases m) (simp add: io_bind_def split: sum.splits prod.splits)

lemma snd_io_bind: "snd (io_bind m f) = (case fst m of Inl e \<Rightarrow> snd m | Inr x \<Rightarrow> snd m @ snd (f x))"
  by (cases m) (simp add: io_bind_def split: sum.splits prod.splits)

lemma fst_io_catch: "fst (io_catch m h) = (case fst m of Inl e \<Rightarrow> fst (h e) | Inr x \<Rightarrow> Inr x)"
  by (cases m) (simp add: io_catch_def split: sum.splits prod.splits)

lemma snd_io_catch: "snd (io_catch m h) = (case fst m of Inl e \<Rightarrow> snd m @ snd (h e) | Inr x \<Rightarrow> snd m)"
  by (cases m) (simp add: io_catch_def split: sum.splits prod.splits)

lemma fst_io_finally: "fst (io_finally m f) = (case fst f of Inl e \<Rightarrow> Inl e | Inr u \<Rightarrow> fst m)"
  by (cases m; cases f) (simp add: io_finally_def split: sum.splits prod.splits)

lemma snd_io_finally: "snd (io_finally m f) = snd m @ snd f"
  by (cases m; cases f) (simp add: io_finally_def split: sum.splits prod.splits)

lemma io_tag_simps: "fst (io_tag g m) = fst m" "snd (io_tag g m) = map g (snd m)"
  by (cases m; simp add: io_tag_def)+

lemmas io_simps = io_return_simps io_throw_simps io_pure_simps io_call_simps fst_io_bind snd_io_bind
  fst_io_catch snd_io_catch fst_io_finally snd_io_finally io_tag_simps

lemma runCustomScript_work: "list_all is_page_work (snd (runCustomScript c i session))"
  by (simp add: runCustomScript_def Let_def io_simps split: sum.splits)

lemma buildUrl_calls: "snd (buildUrl c i) = []"
  by (simp add: buildUrl_def Let_def io_simps split: option.splits)

lemma getPageContent_work: "list_all is_page_work (snd (getPageContent c i))"
  by (simp add: getPageContent_def io_simps split: sum.splits)

lemma getScreenshot_work: "list_all is_page_work (snd (getScreenshot c i u))"
  by (simp add: getScreenshot_def Let_def io_simps split: sum.splits)

lemma getPDF_work: "list_all is_page_work (snd (getPDF c i u))"
  by (simp add: getPDF_def Let_def io_simps split: sum.splits)

lemma runUrlAction_work: "list_all is_page_work (snd (runUrlAction c i session operation))"
  by (simp add: runUrlAction_def io_simps buildUrl_calls
      getPageContent_work getScreenshot_work getPDF_work split: sum.splits)

lemma closeOwnPage_launched:
  "snd (closeOwnPage c i None) = (if page_isClosed c i then [] else [PageClose])"
  by (simp add: closeOwnPage_def io_simps)

lemmas base_defs = baseCtx_def baseParameters_def baseOptions_def

section \<open>Container arguments\<close>

lemma count_list_filter_notin:
  "distinct ys \<Longrightarrow>
   count_list (filter (\<lambda>a. a \<notin> set xs) ys) a = (if a \<in> set ys \<and> a \<notin> set xs then 1 else 0)"
  by (induction ys) auto

lemma count_list_member: "a \<in> set xs \<Longrightarrow> Suc 0 \<le> count_list xs a"
  by (induction xs) auto

lemma count_list_distinct: "distinct xs \<Longrightarrow> a \<in> set xs \<Longrightarrow> count_list xs a = 1"
  by (induction xs) auto

lemma distinct_CONTAINER_LAUNCH_ARGS: "distinct CONTAINER_LAUNCH_ARGS"
  by (simp add: CONTAINER_LAUNCH_ARGS_def)

text \<open>
  C8. With the container-arguments flag set, the launch arguments are the user's
  arguments, unchanged and in their order, followed by the recommended arguments that the
  user's list does not include, each once: the injection never adds an argument that is
  present. So each of the four recommended arguments is in the list, and for a user list
  without repeated entries, holding any of the recommended arguments or none, each of the
  four occurs exactly once and the list has no duplicate entries. Entries that the user
  repeats are kept as the user gave them.
\<close>

theorem container_args_each_once:
  assumes "addContainerArgs opts = Some True"
  shows "launch_args (buildLaunchOptions opts) = buildLaunchArgs opts
       \<and> (\<exists>missing. buildLaunchArgs opts = userLaunchArgs opts @ missing
            \<and> distinct missing
            \<and> set missing = set CONTAINER_LAUNCH_ARGS - set (userLaunchArgs opts))
       \<and> set CONTAINER_LAUNCH_ARGS \<subseteq> set (buildLaunchArgs opts)
       \<and> (distinct (userLaunchArgs opts) \<longrightarrow>
             distinct (buildLaunchArgs opts)
             \<and> (\<forall>a \<in> set CONTAINER_LAUNCH_ARGS. count_list (buildLaunchArgs opts) a = 1))
       \<and> (\<forall>a \<in> set CONTAINER_LAUNCH_ARGS.
             count_list (buildLaunchArgs opts) a = max 1 (count_list (userLaunchArgs opts) a))
       \<and> (\<forall>a. a \<notin> set CONTAINER_LAUNCH_ARGS \<longrightarrow>
             count_list (buildLaunchArgs opts) a = count_list (userLaunchArgs opts) a)"
proof -
  let ?user = "userLaunchArgs opts"
  let ?missing = "filter (\<lambda>arg. arg \<notin> set ?user) CONTAINER_LAUNCH_ARGS"
  have eq: "buildLaunchArgs opts = ?user @ ?missing"
    using assms by (simp add: buildLaunchArgs_def Let_def)
  have dm: "distinct ?missing"
    using distinct_CONTAINER_LAUNCH_ARGS by simp
  have sm: "set ?missing = set CONTAINER_LAUNCH_ARGS - set ?user" by auto
  have cnt: "count_list (buildLaunchArgs opts) a =
      count_list ?user a + (if a \<in> set CONTAINER_LAUNCH_ARGS \<and> a \<notin> set ?user then 1 else 0)" for a
    by (simp add: eq count_list_filter_notin[OF distinct_CONTAINER_LAUNCH_ARGS])
  have c1: "\<forall>a \<in> set CONTAINER_LAUNCH_ARGS.
             count_list (buildLaunchArgs opts) a = max 1 (count_list ?user a)"
  proof
    fix a assume "a \<in> set CONTAINER_LAUNCH_ARGS"
    then show "count_list (buildLaunchArgs opts) a = max 1 (count_list ?user a)"
      by (cases "a \<in> set ?user") (auto simp add: cnt max_def dest: count_list_member)
  qed
  have c2: "\<forall>a. a \<notin> set CONTAINER_LAUNCH_ARGS \<longrightarrow>
             count_list (buildLaunchArgs opts) a = count_list ?user a"
    by (simp add: cnt)
  have d: "distinct (buildLaunchArgs opts)" if "distinct ?user"
    using dm that by (auto simp add: eq)
  have once: "\<forall>a \<in> set CONTAINER_LAUNCH_ARGS. count_list (buildLaunchArgs opts) a = 1"
    if "distinct ?user"
  proof
    fix a assume a: "a \<in> set CONTAINER_LAUNCH_ARGS"
    have "a \<in> set (buildLaunchArgs opts)" using a by (auto simp add: eq)
    with d[OF that] show "count_list (buildLaunchArgs opts) a = 1"
      by (simp add: count_list_distinct)
  qed
  have sub: "set CONTAINER_LAUNCH_ARGS \<subseteq> set (buildLaunchArgs opts)"
    by (auto simp add: eq)
  have la: "launch_args (buildLaunchOptions opts) = buildLaunchArgs opts"
    by (simp add: buildLaunchOptions_def)
  from la eq dm sm sub c1 c2 d once show ?thesis by blast
qed

lemma gpuOptions_setup:
  "addContainerArgs gpuOptions = Some True"
  "userLaunchArgs gpuOptions = [''--disable-gpu'', ''--lang=en'']"
  by (simp_all add: gpuOptions_def baseOptions_def userLaunchArgs_def)

theorem container_args_each_once_witness:
  "distinct (userLaunchArgs gpuOptions)
   \<and> buildLaunchArgs gpuOptions =
       [''--disable-gpu'', ''--lang=en'', ''--no-sandbox'', ''--disable-setuid-sandbox'',
        ''--disable-dev-shm-usage'']
   \<and> distinct (buildLaunchArgs gpuOptions)
   \<and> count_list (buildLaunchArgs gpuOptions) ''--disable-gpu'' = 1
   \<and> count_list (buildLaunchArgs gpuOptions) ''--no-sandbox'' = 1
   \<and> count_list (buildLaunchArgs gpuOptions) ''--disable-setuid-sandbox'' = 1
   \<and> count_list (buildLaunchArgs gpuOptions) ''--disable-dev-shm-usage'' = 1"
proof -
  note t = container_args_each_once [OF gpuOptions_setup(1)]
  have du: "distinct (userLaunchArgs gpuOptions)"
    by (simp add: gpuOptions_setup)
  from t du have d: "distinct (buildLaunchArgs gpuOptions)"
    and once: "\<forall>a \<in> set CONTAINER_LAUNCH_ARGS. count_list (buildLaunchArgs gpuOptions) a = 1"
    by blast+
  have mem: "''--disable-gpu'' \<in> set CONTAINER_LAUNCH_ARGS"
    "''--no-sandbox'' \<in> set CONTAINER_LAUNCH_ARGS"
    "''--disable-setuid-sandbox'' \<in> set CONTAINER_LAUNCH_ARGS"
    "''--disable-dev-shm-usage'' \<in> set CONTAINER_LAUNCH_ARGS"
    by (simp_all add: CONTAINER_LAUNCH_ARGS_def)
  have c: "count_list (buildLaunchArgs gpuOptions) ''--disable-gpu'' = 1"
    "count_list (buildLaunchArgs gpuOptions) ''--no-sandbox'' = 1"
    "count_list (buildLaunchArgs gpuOptions) ''--disable-setuid-sandbox'' = 1"
    "count_list (buildLaunchArgs gpuOptions) ''--disable-dev-shm-usage'' = 1"
    using once mem by blast+
  have v: "buildLaunchArgs gpuOptions =
       [''--disable-gpu'', ''--lang=en'', ''--no-sandbox'', ''--disable-setuid-sandbox'',
        ''--disable-dev-shm-usage'']"
    by (simp add: buildLaunchArgs_def gpuOptions_setup CONTAINER_LAUNCH_ARGS_def Let_def)
  from du v d c show ?thesis by (intro conjI)
qed

section \<open>Pages created for an item are closed\<close>

text \<open>
  C10. Without a session, every per-item run, in script mode as in the content,
  screenshot and PDF actions, first asks the browser for a new page. When that fails the
  run ends with that error and nothing else was called. When it succeeds, the calls that
  follow work on the page, and the run ends by closing the page exactly when the page is
  still open, whether the work returned or threw.
\<close>

theorem created_page_is_closed:
  "\<exists>work. list_all is_page_work work \<and>
     (case browser_newPage c i of
        Inl e \<Rightarrow> runAction c i None = (Inl e, [NewPage])
      | Inr page \<Rightarrow>
          snd (runAction c i None) =
            NewPage # work @ (if page_isClosed c i then [] else [PageClose]))"
proof (cases "browser_newPage c i")
  case (Inl e)
  then have "runAction c i None = (Inl e, [NewPage])"
    by (simp add: runAction_def resolvePage_def io_bind_def io_call_def)
  with Inl show ?thesis by (intro exI[of _ "[]"]) simp
next
  case (Inr page)
  let ?body = "if p_operation (getNodeParameter c i) = ''runCustomScript''
               then runCustomScript c i None
               else runUrlAction c i None (p_operation (getNodeParameter c i))"
  have w: "list_all is_page_work (snd ?body)"
    by (simp add: runCustomScript_work runUrlAction_work)
  have "snd (runAction c i None) =
          NewPage # snd ?body @ (if page_isClosed c i then [] else [PageClose])"
    using Inr by (simp add: runAction_def resolvePage_def Let_def io_simps closeOwnPage_launched)
  with w Inr show ?thesis by (intro exI[of _ "snd ?body"]) simp
qed

theorem created_page_is_closed_witness:
  "(\<exists>work. list_all is_page_work work \<and>
      snd (runAction scriptFailsCtx 0 None) = NewPage # work @ [PageClose])
   \<and> fst (runAction scriptFailsCtx 0 None) = Inl (Error ''script failed'')"
proof -
  have "fst (runAction scriptFailsCtx 0 None) = Inl (Error ''script failed'')"
    by (simp add: runAction_def resolvePage_def runCustomScript_def closeOwnPage_def Let_def
        io_simps scriptFailsCtx_def baseCtx_def baseParameters_def)
  then show ?thesis
    using created_page_is_closed [of scriptFailsCtx 0]
    by (simp add: scriptFailsCtx_def baseCtx_def)
qed

section \<open>A script that does not return an array\<close>

lemma closeOwnPage_result:
  "fst (closeOwnPage c i session) =
     (if session = None \<and> \<not> page_isClosed c i then page_close c i else Inr ())"
  by (simp add: closeOwnPage_def io_simps)

text \<open>
  C4, as the code has it. In script mode, once the page is obtained and the sandbox
  answered with a value that is not an array, the run of the item throws and returns no
  items. The error is InvalidScriptReturn, except when the page was created for the item,
  is still open and its close throws in the final block: then the error of the close
  replaces it. With a session the error is always InvalidScriptReturn.
\<close>

theorem non_array_script_result:
  assumes "p_operation (getNodeParameter c i) = ''runCustomScript''"
    and "fst (resolvePage c i session) = Inr ()"
    and "vm_run c i (wrapScript (p_scriptCode (getNodeParameter c i))) = Inr v"
    and "\<not> isArray v"
  shows "fst (runAction c i session) =
           (if session = None \<and> \<not> page_isClosed c i
            then (case page_close c i of Inl e' \<Rightarrow> Inl e' | Inr u \<Rightarrow> Inl InvalidScriptReturn)
            else Inl InvalidScriptReturn)
         \<and> (\<exists>e. fst (runAction c i session) = Inl e)"
proof -
  have body: "fst (runCustomScript c i session) = Inl InvalidScriptReturn"
    using assms(3,4) by (simp add: runCustomScript_def Let_def io_simps)
  have r: "fst (runAction c i session) =
      (case fst (closeOwnPage c i session) of
         Inl e' \<Rightarrow> Inl e'
       | Inr u \<Rightarrow> fst (runCustomScript c i session))"
    using assms(1,2) by (simp add: runAction_def Let_def fst_io_bind fst_io_finally)
  have "fst (runAction c i session) =
           (if session = None \<and> \<not> page_isClosed c i
            then (case page_close c i of Inl e' \<Rightarrow> Inl e' | Inr u \<Rightarrow> Inl InvalidScriptReturn)
            else Inl InvalidScriptReturn)"
    unfolding r body closeOwnPage_result by (simp split: sum.splits)
  then show ?thesis by (auto split: sum.splits)
qed

lemma closeFailsCtx_setup:
  "p_operation (getNodeParameter closeFailsCtx 0) = ''runCustomScript''"
  "fst (resolvePage closeFailsCtx 0 None) = Inr ()"
  "vm_run closeFailsCtx 0 (wrapScript (p_scriptCode (getNodeParameter closeFailsCtx 0))) =
     Inr (JObject [(''title'', JStr ''Swag Labs'')])"
  "\<not> page_isClosed closeFailsCtx 0"
  "page_close closeFailsCtx 0 = Inl (Error ''close failed'')"
  by (simp_all add: resolvePage_def io_simps closeFailsCtx_def objectScriptCtx_def base_defs)

lemma objectScriptCtx_setup:
  "p_operation (getNodeParameter objectScriptCtx 0) = ''runCustomScript''"
  "fst (resolvePage objectScriptCtx 0 None) = Inr ()"
  "vm_run objectScriptCtx 0 (wrapScript (p_scriptCode (getNodeParameter objectScriptCtx 0))) =
     Inr (JObject [(''title'', JStr ''Swag Labs'')])"
  "\<not> page_isClosed objectScriptCtx 0"
  "page_close objectScriptCtx 0 = Inr ()"
  by (simp_all add: resolvePage_def io_simps objectScriptCtx_def base_defs)

theorem non_array_script_result_witness:
  "fst (runAction objectScriptCtx 0 None) = Inl InvalidScriptReturn
   \<and> fst (runAction closeFailsCtx 0 None) = Inl (Error ''close failed'')"
  using non_array_script_result [of objectScriptCtx 0 None "JObject [(''title'', JStr ''Swag Labs'')]"]
    non_array_script_result [of closeFailsCtx 0 None "JObject [(''title'', JStr ''Swag Labs'')]"]
  by (simp add: objectScriptCtx_setup closeFailsCtx_setup)

text \<open>
  C4 as stated fails: the script returns an object, the created page is closed in the
  final block, the close throws, and the run ends with the error of the close.
\<close>

theorem page_close_error_replaces_script_error:
  "p_operation (getNodeParameter closeFailsCtx 0) = ''runCustomScript''
   \<and> vm_run closeFailsCtx 0 (wrapScript (p_scriptCode (getNodeParameter closeFailsCtx 0))) =
     Inr (JObject [(''title'', JStr ''Swag Labs'')])
   \<and> \<not> isArray (JObject [(''title'', JStr ''Swag Labs'')])
   \<and> fst (runAction closeFailsCtx 0 None) = Inl (Error ''close failed'')
   \<and> fst (runAction closeFailsCtx 0 None) \<noteq> Inl InvalidScriptReturn"
  by (simp add: runAction_def runCustomScript_def Let_def fst_io_bind fst_io_finally
      closeOwnPage_result closeFailsCtx_setup InvalidScriptReturn_def Error_def io_simps)

section \<open>PDF options\<close>

lemma getPDF_calls:
  "snd (getPDF c i u) = [Pdf (buildPdfOptions (getNodeParameter c i))]"
  by (simp add: getPDF_def Let_def io_simps split: sum.splits)

lemma getPDF_result:
  "fst (getPDF c i u) =
     (case page_pdf c i (buildPdfOptions (getNodeParameter c i)) of
        Inl e \<Rightarrow> Inl e
      | Inr pdf \<Rightarrow>
          (case prepareBinaryData c i pdf (pdf_path (buildPdfOptions (getNodeParameter c i)))
                  ''application/pdf'' of
             Inl e \<Rightarrow> Inl e
           | Inr binaryData \<Rightarrow>
               Inr [binaryItem (p_dataPropertyName (getNodeParameter c i)) binaryData
                      (url_toString c u) i]))"
  by (simp add: getPDF_def Let_def io_simps split: sum.splits)

lemma resolvePage_no_pdf: "filter is_pdf (snd (resolvePage c i session)) = []"
  by (simp add: resolvePage_def io_simps split: option.splits sum.splits)

lemma closeOwnPage_no_pdf: "filter is_pdf (snd (closeOwnPage c i session)) = []"
  by (simp add: closeOwnPage_def io_simps)

text \<open>
  C2, as the code has it. For the PDF action with \<open>preferCSSPageSize\<close> off and an
  empty width or height, the options of the render call carry the configured height and
  width and the configured format, whatever it is, and nothing checks them: once the page
  is obtained, the URL parsed and the navigation done, the render call is made exactly
  once with these options, and the run throws only what the render call, the binary
  helper, the stamping or the close of the page throws.
\<close>

theorem pdf_options_rendered_unchecked:
  assumes "p_operation (getNodeParameter c i) = ''getPDF''"
    and "\<not> p_preferCSSPageSize (getNodeParameter c i)"
    and "p_height (getNodeParameter c i) = [] \<or> p_width (getNodeParameter c i) = []"
    and "fst (resolvePage c i session) = Inr ()"
    and "fst (buildUrl c i) = Inr u"
    and "page_goto c i (url_toString c u) = Inr ()"
  shows "filter is_pdf (snd (runAction c i session)) = [Pdf (buildPdfOptions (getNodeParameter c i))]
       \<and> pdf_format (buildPdfOptions (getNodeParameter c i)) = Some (p_format (getNodeParameter c i))
       \<and> pdf_height (buildPdfOptions (getNodeParameter c i)) = Some (p_height (getNodeParameter c i))
       \<and> pdf_width (buildPdfOptions (getNodeParameter c i)) = Some (p_width (getNodeParameter c i))
       \<and> fst (runAction c i session) =
           (case fst (closeOwnPage c i session) of
              Inl e \<Rightarrow> Inl e
            | Inr ok \<Rightarrow>
                (case page_pdf c i (buildPdfOptions (getNodeParameter c i)) of
                   Inl e \<Rightarrow> Inl e
                 | Inr pdf \<Rightarrow>
                     (case prepareBinaryData c i pdf
                             (pdf_path (buildPdfOptions (getNodeParameter c i))) ''application/pdf'' of
                        Inl e \<Rightarrow> Inl e
                      | Inr binaryData \<Rightarrow>
                          stampIfSession session
                            [binaryItem (p_dataPropertyName (getNodeParameter c i)) binaryData
                               (url_toString c u) i])))"
proof -
  let ?p = "getNodeParameter c i"
  have opts: "pdf_format (buildPdfOptions ?p) = Some (p_format ?p)"
    "pdf_height (buildPdfOptions ?p) = Some (p_height ?p)"
    "pdf_width (buildPdfOptions ?p) = Some (p_width ?p)"
    using assms(2,3) by (auto simp add: buildPdfOptions_def)
  have ne: "p_operation ?p \<noteq> ''runCustomScript''" "p_operation ?p \<noteq> ''getPageContent''"
    "p_operation ?p \<noteq> ''getScreenshot''"
    using assms(1) by simp_all
  have body_calls: "snd (runUrlAction c i session ''getPDF'') =
      [Goto (url_toString c u), Pdf (buildPdfOptions ?p)]"
    using assms(5,6) buildUrl_calls[of c i]
    by (simp add: runUrlAction_def io_simps getPDF_calls split: sum.splits)
  have body_result: "fst (runUrlAction c i session ''getPDF'') =
      (case fst (getPDF c i u) of Inl e \<Rightarrow> Inl e
       | Inr resultData \<Rightarrow> stampIfSession session resultData)"
    using assms(5,6)
    by (simp add: runUrlAction_def io_simps split: sum.splits)
  have calls: "filter is_pdf (snd (runAction c i session)) = [Pdf (buildPdfOptions ?p)]"
    using assms(1,4) ne
    by (simp add: runAction_def Let_def io_simps body_calls resolvePage_no_pdf closeOwnPage_no_pdf
        split: sum.splits)
  have result: "fst (runAction c i session) =
      (case fst (closeOwnPage c i session) of
         Inl e \<Rightarrow> Inl e
       | Inr ok \<Rightarrow> fst (runUrlAction c i session ''getPDF''))"
    using assms(1,4) ne
    by (simp add: runAction_def Let_def io_simps split: sum.splits)
  show ?thesis
    by (simp add: calls opts result body_result getPDF_result split: sum.splits)
qed

lemma pdfCtx_setup:
  "getNodeParameter pdfCtx 0 = pdfParameters"
  "p_operation pdfParameters = ''getPDF''"
  "\<not> p_preferCSSPageSize pdfParameters"
  "p_height pdfParameters = []"
  "p_width pdfParameters = []"
  "p_format pdfParameters = []"
  "buildPdfOptions pdfParameters = emptyFormatOptions"
  by (simp_all add: pdfCtx_def pdfParameters_def buildPdfOptions_def emptyFormatOptions_def base_defs)

lemma pdfCtx_run:
  "fst (resolvePage pdfCtx 0 None) = Inr ()"
  "fst (buildUrl pdfCtx 0) = Inr \<lparr> href = ''https://example.test/'', searchParams = [] \<rparr>"
  "page_goto pdfCtx 0
     (url_toString pdfCtx \<lparr> href = ''https://example.test/'', searchParams = [] \<rparr>) = Inr ()"
  by (simp_all add: resolvePage_def buildUrl_def Let_def io_simps pdfCtx_def pdfParameters_def base_defs)

theorem pdf_options_rendered_unchecked_witness:
  "filter is_pdf (snd (runAction pdfCtx 0 None)) = [Pdf emptyFormatOptions]
   \<and> pdf_format emptyFormatOptions = Some []"
  using pdf_options_rendered_unchecked
    [of pdfCtx 0 None "\<lparr> href = ''https://example.test/'', searchParams = [] \<rparr>"]
  by (simp add: pdfCtx_setup pdfCtx_run)

text \<open>
  C2 as stated fails: with no width, no height and an empty format the render call is
  made and the run returns the rendered document.
\<close>

theorem pdf_rendered_without_dimensions_or_format:
  "p_operation (getNodeParameter pdfCtx 0) = ''getPDF''
   \<and> \<not> p_preferCSSPageSize (getNodeParameter pdfCtx 0)
   \<and> p_height (getNodeParameter pdfCtx 0) = []
   \<and> p_width (getNodeParameter pdfCtx 0) = []
   \<and> p_format (getNodeParameter pdfCtx 0) = []
   \<and> runAction pdfCtx 0 None =
       (Inr [binaryItem ''data'' (JObject [(''mimeType'', JStr ''application/pdf'')])
               ''https://example.test/'' 0],
        [NewPage, Goto ''https://example.test/'', Pdf emptyFormatOptions, PageClose])"
  by (simp add: pdfCtx_setup)
     (simp add: runAction_def resolvePage_def runUrlAction_def buildUrl_def getPDF_def
      closeOwnPage_def stampIfSession_def Let_def
      io_bind_def io_call_def io_pure_def io_return_def io_finally_def
      buildPdfOptions_def emptyFormatOptions_def
      pdfCtx_def pdfParameters_def baseCtx_def baseParameters_def baseOptions_def)

section \<open>The loop over the input items\<close>

lemma forItems_items: "list_all is_item (snd (forItems c session i returnData))"
proof (induction c session i returnData rule: forItems.induct)
  case (1 c session i returnData)
  show ?case
    apply (subst forItems.simps)
    using 1
    apply (auto simp add: io_simps list_all_iff split: sum.splits)
    done
qed


lemma forItems_ok:
  "i < inputLength c \<Longrightarrow> runAction c i session = (Inr results, t) \<Longrightarrow>
   forItems c session i returnData =
     (fst (forItems c session (Suc i) (returnData @ results)),
      map (Item i) t @ snd (forItems c session (Suc i) (returnData @ results)))"
  by (subst forItems.simps)
     (simp add: io_catch_def io_bind_def io_tag_def io_return_def split: prod.splits)





lemma forItems_failed_stop:
  "i < inputLength c \<Longrightarrow> runAction c i session = (Inl error, t) \<Longrightarrow> \<not> continueOnFail c \<Longrightarrow>
   forItems c session i returnData = (Inl error, map (Item i) t)"
  by (subst forItems.simps)
     (simp add: io_catch_def io_bind_def io_tag_def io_throw_def split: prod.splits)



lemma forItems_stop:
  "\<not> continueOnFail c \<Longrightarrow> i \<le> k \<Longrightarrow> k < inputLength c \<Longrightarrow>
   (\<And>j. i \<le> j \<Longrightarrow> j < k \<Longrightarrow> \<exists>r. fst (runAction c j session) = Inr r) \<Longrightarrow>
   fst (runAction c k session) = Inl e \<Longrightarrow>
   forItems c session i returnData =
     (Inl e, concat (map (itemCalls c session) [i..<Suc k]))"
proof (induction c session i returnData rule: forItems.induct)
  case (1 c session i returnData)
  have lt: "i < inputLength c" using 1 by simp
  obtain r t where ra: "runAction c i session = (r, t)" by (cases "runAction c i session")
  show ?case
  proof (cases "i = k")
    case True
    with ra 1 have ra': "runAction c i session = (Inl e, t)" by simp
    have "forItems c session i returnData = (Inl e, map (Item i) t)"
      by (rule forItems_failed_stop[OF lt ra' 1(2)])
    then show ?thesis
      using True ra' by (simp add: itemCalls_def)
  next
    case False
    then have ik: "i < k" using 1(3) by simp
    then obtain results where "r = Inr results" using 1(5)[of i] ra by auto
    with ra have ra': "runAction c i session = (Inr results, t)" by simp
    have up: "[i..<Suc k] = i # [Suc i..<Suc k]" using ik by (simp add: upt_conv_Cons)
    have IH: "forItems c session (Suc i) (returnData @ results) =
            (Inl e, concat (map (itemCalls c session) [Suc i..<Suc k]))"
      using 1(1)[OF lt, of "returnData @ results"] 1(2) ik 1(4) 1(5) 1(6) by simp
    have here: "itemCalls c session i = map (Item i) t"
      by (simp add: itemCalls_def ra')
    show ?thesis
      by (simp add: forItems_ok[OF lt ra'] IH up here del: upt_Suc)
  qed
qed



lemma runAction_stopCtx:
  "runAction stopCtx i None =
     (if i = 1 then (Inl (Error ''navigation failed''), [NewPage, Goto ''https://example.test/'', PageClose])
      else (Inr [contentItem i],
            [NewPage, Goto ''https://example.test/'', Content, PageClose]))"
  by (simp add: runAction_def resolvePage_def runUrlAction_def buildUrl_def getPageContent_def
      closeOwnPage_def stampIfSession_def contentItem_def pairedItem_def Let_def
      io_bind_def io_call_def io_pure_def io_return_def io_finally_def
      stopCtx_def batchCtx_def baseCtx_def contentParameters_def baseParameters_def)




section \<open>The batch: resolving the session, the browser handle and its release\<close>

lemma execute_action:
  "p_operation (getNodeParameter c 0) \<noteq> ''startPersistentBrowser'' \<Longrightarrow>
   p_operation (getNodeParameter c 0) \<noteq> ''stopPersistentBrowser'' \<Longrightarrow>
   execute c slot =
     (case resolveSession (p_options (getNodeParameter c 0)) slot of
        Inl error \<Rightarrow> (io_throw error, slot)
      | Inr (session, isManualSession) \<Rightarrow>
          (io_bind (acquireBrowser c (p_options (getNodeParameter c 0)) session)
             (\<lambda>browser. runBatch c session isManualSession),
           slot))"
  by (simp add: execute_def Let_def)

lemma acquireBrowser_calls:
  "snd (acquireBrowser c opts session) =
     [case session of None \<Rightarrow> Launch (buildLaunchOptions opts) | Some s \<Rightarrow> Connect (wsEndpoint s)]"
  by (simp add: acquireBrowser_def io_simps split: option.splits sum.splits)

lemma teardown_calls:
  "snd (teardown c session isManualSession) =
     [case session of None \<Rightarrow> BrowserClose | Some s \<Rightarrow> Disconnect]"
  by (simp add: teardown_def io_simps split: option.splits)

lemma runBatch_calls:
  "snd (runBatch c session isManualSession) =
     snd (forItems c session 0 []) @ [case session of None \<Rightarrow> BrowserClose | Some s \<Rightarrow> Disconnect]"
  by (simp add: runBatch_def io_simps teardown_calls split: sum.splits)

lemma runBatch_result:
  "fst (runBatch c session isManualSession) =
     (case fst (teardown c session isManualSession) of
        Inl e' \<Rightarrow> Inl e'
      | Inr u \<Rightarrow>
          (case fst (forItems c session 0 []) of
             Inl e \<Rightarrow> Inl e
           | Inr returnData \<Rightarrow> Inr [returnData]))"
  by (simp add: runBatch_def io_simps split: sum.splits)

lemma filter_items_teardown: "list_all is_item xs \<Longrightarrow> filter is_teardown xs = []"
  by (induction xs) (auto elim: is_item.elims)

lemma filter_items_launch: "list_all is_item xs \<Longrightarrow> filter is_launch xs = []"
  by (induction xs) (auto elim: is_item.elims)

lemma filter_items_connect: "list_all is_item xs \<Longrightarrow> filter is_connect xs = []"
  by (induction xs) (auto elim: is_item.elims)

lemma runAction_maskCtx:
  "runAction maskCtx i None =
     (if i = 1 then (Inl (Error ''navigation failed''), [NewPage, Goto ''https://example.test/'', PageClose])
      else (Inr [contentItem i],
            [NewPage, Goto ''https://example.test/'', Content, PageClose]))"
  by (simp add: runAction_def resolvePage_def runUrlAction_def buildUrl_def getPageContent_def
      closeOwnPage_def stampIfSession_def contentItem_def pairedItem_def Let_def
      io_bind_def io_call_def io_pure_def io_return_def io_finally_def
      maskCtx_def stopCtx_def batchCtx_def baseCtx_def contentParameters_def baseParameters_def)

lemma forItems_stopCtx:
  "forItems stopCtx None 0 [] =
     (Inl (Error ''navigation failed''),
      [Item 0 NewPage, Item 0 (Goto ''https://example.test/''), Item 0 Content, Item 0 PageClose,
       Item 1 NewPage, Item 1 (Goto ''https://example.test/''), Item 1 PageClose])"
proof -
  have two: "[0..<Suc 1] = [0, 1::nat]" by (simp add: upt_rec)
  have "forItems stopCtx None 0 [] =
          (Inl (Error ''navigation failed''), concat (map (itemCalls stopCtx None) [0..<Suc 1]))"
    by (rule forItems_stop) (simp_all add: runAction_stopCtx, simp_all add: stopCtx_def batchCtx_def base_defs)
  then show ?thesis
    unfolding two by (simp add: itemCalls_def runAction_stopCtx)
qed

lemma forItems_maskCtx:
  "forItems maskCtx None 0 [] =
     (Inl (Error ''navigation failed''),
      [Item 0 NewPage, Item 0 (Goto ''https://example.test/''), Item 0 Content, Item 0 PageClose,
       Item 1 NewPage, Item 1 (Goto ''https://example.test/''), Item 1 PageClose])"
proof -
  have two: "[0..<Suc 1] = [0, 1::nat]" by (simp add: upt_rec)
  have "forItems maskCtx None 0 [] =
          (Inl (Error ''navigation failed''), concat (map (itemCalls maskCtx None) [0..<Suc 1]))"
    by (rule forItems_stop) (simp_all add: runAction_maskCtx, simp_all add: maskCtx_def stopCtx_def batchCtx_def base_defs)
  then show ?thesis
    unfolding two by (simp add: itemCalls_def runAction_maskCtx)
qed

lemma stopCtx_setup:
  "p_operation (getNodeParameter stopCtx 0) = ''getPageContent''"
  "resolveSession (p_options (getNodeParameter stopCtx 0)) None = Inr (None, False)"
  "fst (acquireBrowser stopCtx (p_options (getNodeParameter stopCtx 0)) None) = Inr ()"
  "browser_close stopCtx = Inr ()"
  by (simp_all add: resolveSession_def acquireBrowser_def io_simps stopCtx_def batchCtx_def contentParameters_def base_defs)

lemma maskCtx_setup:
  "p_operation (getNodeParameter maskCtx 0) = ''getPageContent''"
  "resolveSession (p_options (getNodeParameter maskCtx 0)) None = Inr (None, False)"
  "fst (acquireBrowser maskCtx (p_options (getNodeParameter maskCtx 0)) None) = Inr ()"
  "browser_close maskCtx = Inl (Error ''close failed'')"
  by (simp_all add: resolveSession_def acquireBrowser_def io_simps maskCtx_def stopCtx_def batchCtx_def
      contentParameters_def base_defs)

lemma batchCtx_session_setup:
  "p_operation (getNodeParameter batchCtx 0) = ''getPageContent''"
  "resolveSession (p_options (getNodeParameter batchCtx 0)) (Some session1) = Inr (Some session1, False)"
  "fst (acquireBrowser batchCtx (p_options (getNodeParameter batchCtx 0)) (Some session1)) = Inr ()"
  by (simp_all add: resolveSession_def acquireBrowser_def io_simps batchCtx_def contentParameters_def
      session1_def base_defs)

lemma overrideCtx_batch_setup:
  "p_operation (getNodeParameter overrideCtx 0) = ''runCustomScript''"
  "resolveSession (p_options (getNodeParameter overrideCtx 0)) None =
     Inr (Some \<lparr> wsEndpoint = ''ws://manual'', pageId = ''p1'', sessionId = ''manual-override'',
                  browserManagerUrl = [] \<rparr>, True)"
  "fst (acquireBrowser overrideCtx (p_options (getNodeParameter overrideCtx 0))
          (Some \<lparr> wsEndpoint = ''ws://manual'', pageId = ''p1'', sessionId = ''manual-override'',
                  browserManagerUrl = [] \<rparr>)) = Inr ()"
  by (simp_all add: resolveSession_def acquireBrowser_def io_simps overrideCtx_def
      overrideOptions_def base_defs)

text \<open>
  C1. For each operation other than start and stop, once the session is resolved and the
  browser handle obtained, the calls of the invocation are the launch or the connect, then
  calls for items only, then one release of the handle as the last call: close when the
  browser was launched (no session), disconnect when it was connected (the session of the
  slot or the manual override). No other call releases the handle, whatever the items did
  and wherever the loop stopped.
\<close>

theorem teardown_exactly_once:
  assumes "p_operation (getNodeParameter c 0) \<noteq> ''startPersistentBrowser''"
    and "p_operation (getNodeParameter c 0) \<noteq> ''stopPersistentBrowser''"
    and "resolveSession (p_options (getNodeParameter c 0)) slot = Inr (session, isManualSession)"
    and "fst (acquireBrowser c (p_options (getNodeParameter c 0)) session) = Inr ()"
  shows "(\<exists>itemCalls. list_all is_item itemCalls \<and>
            outcome_calls (execute c slot) =
              (case session of
                 None \<Rightarrow> Launch (buildLaunchOptions (p_options (getNodeParameter c 0)))
               | Some s \<Rightarrow> Connect (wsEndpoint s))
              # itemCalls @ [case session of None \<Rightarrow> BrowserClose | Some s \<Rightarrow> Disconnect])
         \<and> filter is_teardown (outcome_calls (execute c slot)) =
              [case session of None \<Rightarrow> BrowserClose | Some s \<Rightarrow> Disconnect]"
proof -
  let ?opts = "p_options (getNodeParameter c 0)"
  let ?first = "case session of None \<Rightarrow> Launch (buildLaunchOptions ?opts)
                | Some s \<Rightarrow> Connect (wsEndpoint s)"
  let ?last = "case session of None \<Rightarrow> BrowserClose | Some s \<Rightarrow> Disconnect"
  let ?items = "snd (forItems c session 0 [])"
  have calls: "outcome_calls (execute c slot) = ?first # ?items @ [?last]"
    using assms
    by (simp add: execute_action outcome_calls_def snd_io_bind acquireBrowser_calls runBatch_calls)
  have items: "list_all is_item ?items" by (rule forItems_items)
  have "filter is_teardown (?first # ?items @ [?last]) = [?last]"
    using filter_items_teardown[OF items] by (simp split: option.splits)
  with calls items show ?thesis by auto
qed

theorem teardown_exactly_once_witness:
  "filter is_teardown (outcome_calls (execute stopCtx None)) = [BrowserClose]
   \<and> filter is_teardown (outcome_calls (execute batchCtx (Some session1))) = [Disconnect]
   \<and> filter is_teardown (outcome_calls (execute overrideCtx None)) = [Disconnect]"
  using teardown_exactly_once [of stopCtx None None False]
    teardown_exactly_once [of batchCtx "Some session1" "Some session1" False]
    teardown_exactly_once [of overrideCtx None
      "Some \<lparr> wsEndpoint = ''ws://manual'', pageId = ''p1'', sessionId = ''manual-override'',
                  browserManagerUrl = [] \<rparr>" True]
  by (simp add: stopCtx_setup batchCtx_session_setup overrideCtx_batch_setup)

lemma overrideCtx_setup:
  "p_operation (getNodeParameter overrideCtx 0) = ''runCustomScript''"
  "manualSessionOverride (p_options (getNodeParameter overrideCtx 0)) = Some True"
  "manualWsEndpoint (p_options (getNodeParameter overrideCtx 0)) = Some ''ws://manual''"
  "manualPageId (p_options (getNodeParameter overrideCtx 0)) = Some ''p1''"
  by (simp_all add: overrideCtx_def overrideOptions_def base_defs)


text \<open>
  C3. For each operation other than start and stop, when the slot holds a session the
  first call connects to the endpoint of that session, and neither a launch nor another
  connect follows, whatever the options are, the manual override included.
\<close>

theorem ambient_session_connects:
  assumes "p_operation (getNodeParameter c 0) \<noteq> ''startPersistentBrowser''"
    and "p_operation (getNodeParameter c 0) \<noteq> ''stopPersistentBrowser''"
  shows "\<exists>rest. outcome_calls (execute c (Some s)) = Connect (wsEndpoint s) # rest
           \<and> filter is_launch rest = [] \<and> filter is_connect rest = []"
proof -
  let ?opts = "p_options (getNodeParameter c 0)"
  have rs: "resolveSession ?opts (Some s) = Inr (Some s, False)"
    by (simp add: resolveSession_def)
  let ?rest = "case fst (acquireBrowser c ?opts (Some s)) of
                 Inl e \<Rightarrow> []
               | Inr u \<Rightarrow> snd (forItems c (Some s) 0 []) @ [Disconnect]"
  have calls: "outcome_calls (execute c (Some s)) = Connect (wsEndpoint s) # ?rest"
    using assms
    by (simp add: execute_action rs outcome_calls_def snd_io_bind acquireBrowser_calls
        runBatch_calls split: sum.splits)
  have items: "list_all is_item (snd (forItems c (Some s) 0 []))" by (rule forItems_items)
  have "filter is_launch ?rest = []" "filter is_connect ?rest = []"
    using filter_items_launch[OF items] filter_items_connect[OF items]
    by (simp_all split: sum.splits)
  with calls show ?thesis by blast
qed

theorem ambient_session_connects_witness:
  "manualSessionOverride (p_options (getNodeParameter overrideCtx 0)) = Some True
   \<and> (\<exists>rest. outcome_calls (execute overrideCtx (Some session1)) = Connect ''ws://x'' # rest
          \<and> filter is_launch rest = [] \<and> filter is_connect rest = [])"
  using ambient_session_connects [of overrideCtx session1]
  by (simp add: overrideCtx_setup) (simp add: session1_def)



text \<open>
  C9, as the code has it. When the loop over the items is propagating an error, the final
  block still releases the browser handle. When the release returns, the error of the loop
  reaches the caller; when the release itself throws, its error replaces the error of the
  loop. Nothing catches or logs around the release.
\<close>

theorem teardown_error_replaces_loop_error:
  assumes "p_operation (getNodeParameter c 0) \<noteq> ''startPersistentBrowser''"
    and "p_operation (getNodeParameter c 0) \<noteq> ''stopPersistentBrowser''"
    and "resolveSession (p_options (getNodeParameter c 0)) slot = Inr (session, isManualSession)"
    and "fst (acquireBrowser c (p_options (getNodeParameter c 0)) session) = Inr ()"
    and "fst (forItems c session 0 []) = Inl e"
  shows "outcome_result (execute c slot) =
           (case (case session of None \<Rightarrow> browser_close c | Some s \<Rightarrow> browser_disconnect c) of
              Inl e' \<Rightarrow> Inl e'
            | Inr u \<Rightarrow> Inl e)"
proof -
  have td: "fst (teardown c session isManualSession) =
              (case session of None \<Rightarrow> browser_close c | Some s \<Rightarrow> browser_disconnect c)"
    by (simp add: teardown_def io_simps split: option.splits)
  show ?thesis
    using assms
    by (simp add: execute_action outcome_result_def fst_io_bind runBatch_result td
        split: sum.splits)
qed

theorem teardown_error_replaces_loop_error_witness:
  "outcome_result (execute maskCtx None) = Inl (Error ''close failed'')
   \<and> outcome_result (execute stopCtx None) = Inl (Error ''navigation failed'')"
  using teardown_error_replaces_loop_error [of maskCtx None None False "Error ''navigation failed''"]
    teardown_error_replaces_loop_error [of stopCtx None None False "Error ''navigation failed''"]
  by (simp add: stopCtx_setup maskCtx_setup forItems_maskCtx forItems_stopCtx)

text \<open>
  C9 as stated fails: the second item of the batch throws, the error propagates, the close
  of the launched browser throws in the final block, and the caller receives the error of
  the close.
\<close>

theorem teardown_masks_loop_error:
  "fst (forItems maskCtx None 0 []) = Inl (Error ''navigation failed'')
   \<and> outcome_result (execute maskCtx None) = Inl (Error ''close failed'')"
  by (simp add: forItems_maskCtx execute_action maskCtx_setup outcome_result_def fst_io_bind
      runBatch_result teardown_def io_simps)

section \<open>Stopping the persistent browser\<close>

lemma execute_stop:
  "p_operation (getNodeParameter c 0) = ''stopPersistentBrowser'' \<Longrightarrow>
   execute c slot = stopPersistentBrowser c slot"
  by (simp add: execute_def)

text \<open>
  C7. For the stop operation: with an empty slot and an empty fallback session identifier
  or manager address the invocation throws NoSessionToStop and makes no call. Whenever the
  invocation throws, the slot is left as it was. The slot changes only when it held a
  session and the stop request for that session was answered: then it is cleared and the
  acknowledgement is returned.
\<close>

theorem stop_persistent:
  assumes "p_operation (getNodeParameter c 0) = ''stopPersistentBrowser''"
  shows "(slot = None \<and> (p_stopSessionId (getNodeParameter c 0) = []
                          \<or> p_stopBrowserManagerUrl (getNodeParameter c 0) = [])
          \<longrightarrow> execute c slot = ((Inl NoSessionToStop, []), None))
       \<and> ((\<exists>e. outcome_result (execute c slot) = Inl e)
            \<longrightarrow> outcome_slot (execute c slot) = slot)
       \<and> (outcome_slot (execute c slot) \<noteq> slot
            \<longrightarrow> (\<exists>s. slot = Some s \<and> outcome_slot (execute c slot) = None
                   \<and> (\<exists>r. httpRequest c (browserManagerUrl s @ ''/stop'') (sessionId s) = Inr r)
                   \<and> outcome_calls (execute c slot) =
                        [HttpPost (browserManagerUrl s @ ''/stop'') (sessionId s)]))
       \<and> (\<forall>s r. slot = Some s \<and> sessionId s \<noteq> [] \<and> browserManagerUrl s \<noteq> []
                  \<and> httpRequest c (browserManagerUrl s @ ''/stop'') (sessionId s) = Inr r
            \<longrightarrow> outcome_slot (execute c slot) = None
                \<and> outcome_result (execute c slot) =
                    Inr [[JObject [(''json'', JObject [(''message'', JStr ''Session stopped.'')])]]])"
proof (intro conjI impI allI)
  assume "slot = None \<and> (p_stopSessionId (getNodeParameter c 0) = []
                          \<or> p_stopBrowserManagerUrl (getNodeParameter c 0) = [])"
  then show "execute c slot = ((Inl NoSessionToStop, []), None)"
    by (auto simp add: execute_stop[OF assms] stopPersistentBrowser_def io_throw_def)
next
  assume "\<exists>e. outcome_result (execute c slot) = Inl e"
  then show "outcome_slot (execute c slot) = slot"
    by (auto simp add: execute_stop[OF assms] stopPersistentBrowser_def io_throw_def Let_def
        outcome_result_def outcome_slot_def split: option.splits sum.splits if_splits)
next
  assume "outcome_slot (execute c slot) \<noteq> slot"
  then show "\<exists>s. slot = Some s \<and> outcome_slot (execute c slot) = None
                   \<and> (\<exists>r. httpRequest c (browserManagerUrl s @ ''/stop'') (sessionId s) = Inr r)
                   \<and> outcome_calls (execute c slot) =
                        [HttpPost (browserManagerUrl s @ ''/stop'') (sessionId s)]"
    by (auto simp add: execute_stop[OF assms] stopPersistentBrowser_def io_throw_def Let_def
        outcome_calls_def outcome_slot_def split: option.splits sum.splits if_splits)
next
  fix s r
  assume h: "slot = Some s \<and> sessionId s \<noteq> [] \<and> browserManagerUrl s \<noteq> []
                  \<and> httpRequest c (browserManagerUrl s @ ''/stop'') (sessionId s) = Inr r"
  then show "outcome_slot (execute c slot) = None"
    by (simp add: execute_stop[OF assms] stopPersistentBrowser_def outcome_slot_def)
  from h show "outcome_result (execute c slot) =
                    Inr [[JObject [(''json'', JObject [(''message'', JStr ''Session stopped.'')])]]]"
    by (simp add: execute_stop[OF assms] stopPersistentBrowser_def outcome_result_def
        returnJsonArray_def)
qed

lemma stopOpCtx_setup:
  "p_operation (getNodeParameter stopOpCtx 0) = ''stopPersistentBrowser''"
  "p_stopSessionId (getNodeParameter stopOpCtx 0) = []"
  "httpRequest stopOpCtx (browserManagerUrl session1 @ ''/stop'') (sessionId session1) =
     Inr \<lparr> resp_wsEndpoint = ''ws://x'', resp_pageId = ''p1'', resp_sessionId = ''abc'' \<rparr>"
  "sessionId session1 \<noteq> []" "browserManagerUrl session1 \<noteq> []"
  by (simp_all add: stopOpCtx_def session1_def base_defs)

lemma stopFailsCtx_result:
  "p_operation (getNodeParameter stopFailsCtx 0) = ''stopPersistentBrowser''"
  "outcome_result (execute stopFailsCtx (Some session1)) =
     Inl (NodeOperationError (newError ''manager down'') (Some ''Failed to stop browser session.'')
            None)"
  by (simp_all add: execute_def stopPersistentBrowser_def outcome_result_def Error_def Let_def
      stopFailsCtx_def stopOpCtx_def session1_def base_defs)

theorem stop_persistent_witness:
  "execute stopOpCtx None = ((Inl NoSessionToStop, []), None)
   \<and> outcome_slot (execute stopOpCtx (Some session1)) = None
   \<and> outcome_slot (execute stopFailsCtx (Some session1)) = Some session1"
  using stop_persistent [of stopOpCtx None] stop_persistent [of stopOpCtx "Some session1"]
    stop_persistent [of stopFailsCtx "Some session1"]
  by (simp add: stopOpCtx_setup stopFailsCtx_result)

end
